theory Spec2Isabelle
  imports Main "HOL-Library.Word"
begin

section \<open>The IAP2 JNI binding (jni/com_android_bluetooth_iap2.cpp)\<close>

text \<open>
  The file is JNI glue between a Java listener (the IAP2 state machine) and the native
  IAP2 profile interface of the Bluetooth stack.  It has three static variables, four
  callbacks that the stack calls and six native methods that Java calls.  The model keeps
  the statics in a record, passes that record through every function, and returns with it
  the list of calls the function made on its collaborators (the transport, the JNI
  environment, the log), in program order.  What a collaborator answers is an input of the
  model: the record \<open>platform\<close> holds the answers of the platform functions, and the
  interface record holds the status each transport entry point returns.
\<close>

subsection \<open>Values that cross the boundary\<close>

type_synonym jbyte = "8 word"
type_synonym jint = "32 word"
type_synonym jobject = nat
type_synonym JNIEnv = nat
type_synonym jbyteArray = "jbyte list"
type_synonym ptr = nat
type_synonym jref = nat

text \<open>
  Modelled from the spec: \<open>bt_status_t\<close> is declared in hardware/bluetooth.h, which is
  not among the sources.  The code only compares a status with \<open>BT_STATUS_SUCCESS\<close>;
  every other status carries its number.
\<close>

datatype bt_status_t = BT_STATUS_SUCCESS | BT_STATUS_OTHER int

text \<open>
  Modelled from the spec: \<open>btiap2_connection_state_t\<close> and \<open>btiap2_service_state_t\<close>
  are declared in hardware/bt_iap2.h, which is not among the sources.  The spec lists
  four states for each.
\<close>

datatype btiap2_connection_state_t =
    BTIAP2_CONNECTION_STATE_DISCONNECTED
  | BTIAP2_CONNECTION_STATE_CONNECTING
  | BTIAP2_CONNECTION_STATE_CONNECTED
  | BTIAP2_CONNECTION_STATE_DISCONNECTING

datatype btiap2_service_state_t =
    BTIAP2_SERVICE_STATE_DISCONNECTED
  | BTIAP2_SERVICE_STATE_CONNECTING
  | BTIAP2_SERVICE_STATE_CONNECTED
  | BTIAP2_SERVICE_STATE_DISCONNECTING

text \<open>
  Modelled from the spec: \<open>sizeof(bt_bdaddr_t)\<close>; the type is declared in
  hardware/bluetooth.h, and the spec gives a peer address six bytes.
\<close>

definition sizeof_bt_bdaddr_t :: jint where
  "sizeof_bt_bdaddr_t = 6"

text \<open>\<open>EINVAL\<close> of errno.h.\<close>

definition EINVAL :: int where
  "EINVAL = 22"

subsection \<open>The transport's interface tables\<close>

text \<open>
  \<open>btiap2_interface_t\<close> is a table of function pointers.  Each field below is what the
  entry point returns; that the entry point was called is recorded in the effect list.
  \<open>iface_id\<close> stands for the address of the table.
\<close>

record btiap2_interface_t =
  iface_id :: nat
  init :: bt_status_t
  connect :: "jbyte list \<Rightarrow> bt_status_t"
  disconnect :: "jbyte list \<Rightarrow> bt_status_t"
  send_data :: "jint \<Rightarrow> jbyte list \<Rightarrow> bt_status_t"

datatype profile_id = BT_PROFILE_IAP2_ID | BT_PROFILE_OTHER string

record bt_interface_t =
  get_profile_interface :: "profile_id \<Rightarrow> btiap2_interface_t option"

subsection \<open>What the platform answers during one call\<close>

record platform =
  getBluetoothInterface :: "bt_interface_t option"
  getCallbackEnv :: "JNIEnv option"
  getJNIEnv :: "JNIEnv option"
  NewByteArray_ok :: bool
  jniCreateFileDescriptor_ok :: bool
  NewStringUTF_ok :: bool
  GetByteArrayElements_ok :: bool
  NewGlobalRef_ok :: bool

subsection \<open>Effects\<close>

text \<open>The four methods of the listener, with the arguments \<open>CallVoidMethod\<close> passes.\<close>

datatype listener_call =
    onConnectionStateChanged btiap2_connection_state_t jref
  | onServiceStateChanged btiap2_service_state_t jref "int option"
  | onDataRx jint jref
  | onError jint "string option"

datatype effect =
    ALOGI string
  | ALOGW string
  | ALOGE string
  | Call_init nat
  | Call_cleanup nat
  | Call_connect nat "jbyte list"
  | Call_disconnect nat "jbyte list"
  | Call_send_data nat jint "jbyte list"
  | Call_NewGlobalRef jobject "jobject option"
  | Call_DeleteGlobalRef jobject
  | CallVoidMethod "jobject option" listener_call
  | Call_checkAndClearExceptionFromCallback
  | Call_DeleteLocalRef jref
  | Call_DeleteLocalRef_string "string option"
  | Call_jniThrowIOException int
  | Call_ReleaseByteArrayElements "jbyte list"

fun is_transport_call :: "effect \<Rightarrow> bool" where
  "is_transport_call (Call_init i) = True"
| "is_transport_call (Call_cleanup i) = True"
| "is_transport_call (Call_connect i a) = True"
| "is_transport_call (Call_disconnect i a) = True"
| "is_transport_call (Call_send_data i n b) = True"
| "is_transport_call e = False"

fun is_listener_call :: "effect \<Rightarrow> bool" where
  "is_listener_call (CallVoidMethod l c) = True"
| "is_listener_call e = False"

fun is_release :: "effect \<Rightarrow> bool" where
  "is_release (Call_cleanup i) = True"
| "is_release (Call_DeleteGlobalRef r) = True"
| "is_release e = False"

fun is_throw :: "effect \<Rightarrow> bool" where
  "is_throw (Call_jniThrowIOException n) = True"
| "is_throw e = False"

subsection \<open>The static variables, the Java heap and native memory\<close>

text \<open>
  \<open>jheap\<close> holds the Java byte arrays the callbacks create: a reference is an index
  into it, so an allocation is an append and its reference is new.  \<open>memory\<close> is the
  native memory the transport's pointers point into.
\<close>

record iap2_state =
  sBluetoothIap2Interface :: "btiap2_interface_t option"
  mCallbacksObj :: "jobject option"
  sCallbackEnv :: "JNIEnv option"
  jheap :: "jbyte list list"
  memory :: "ptr \<Rightarrow> jbyte"

subsection \<open>The JNI functions the file calls\<close>

definition read_bytes :: "(ptr \<Rightarrow> jbyte) \<Rightarrow> ptr \<Rightarrow> nat \<Rightarrow> jbyte list" where
  "read_bytes m p n = map (\<lambda>i. m (p + i)) [0..<n]"

text \<open>
  \<open>NewByteArray\<close> takes a \<open>jsize\<close>, a signed 32-bit length: a negative one raises
  NegativeArraySizeException and gives NULL, as a failed allocation does.
\<close>

definition NewByteArray :: "platform \<Rightarrow> jint \<Rightarrow> jbyte list list \<Rightarrow> (jref \<times> jbyte list list) option" where
  "NewByteArray p n h =
     (if sint n < 0 then None
      else if NewByteArray_ok p then Some (length h, h @ [replicate (nat (sint n)) 0])
      else None)"

text \<open>
  \<open>SetByteArrayRegion\<close> copies \<open>n\<close> bytes from native memory into the array; a region
  that does not fit raises ArrayIndexOutOfBoundsException and copies nothing.
\<close>

definition SetByteArrayRegion ::
  "(ptr \<Rightarrow> jbyte) \<Rightarrow> jbyte list list \<Rightarrow> jref \<Rightarrow> nat \<Rightarrow> jint \<Rightarrow> ptr \<Rightarrow> jbyte list list" where
  "SetByteArrayRegion m h a start n buf =
     (if a < length h \<and> 0 \<le> sint n \<and> start + nat (sint n) \<le> length (h ! a)
      then h[a := take start (h ! a) @ read_bytes m buf (nat (sint n)) @ drop (start + nat (sint n)) (h ! a)]
      else h)"

text \<open>\<open>GetByteArrayElements\<close> gives a pointer to the array's elements, or NULL.\<close>

definition GetByteArrayElements :: "platform \<Rightarrow> jbyteArray \<Rightarrow> jbyte list option" where
  "GetByteArrayElements p a = (if GetByteArrayElements_ok p then Some a else None)"

definition NewGlobalRef :: "platform \<Rightarrow> jobject \<Rightarrow> jobject option" where
  "NewGlobalRef p obj = (if NewGlobalRef_ok p then Some obj else None)"

definition jniCreateFileDescriptor :: "platform \<Rightarrow> int \<Rightarrow> int option" where
  "jniCreateFileDescriptor p fd = (if jniCreateFileDescriptor_ok p then Some fd else None)"

definition NewStringUTF :: "platform \<Rightarrow> string \<Rightarrow> string option" where
  "NewStringUTF p str = (if NewStringUTF_ok p then Some str else None)"

subsection \<open>The native methods\<close>

definition initializeNative :: "platform \<Rightarrow> jobject \<Rightarrow> iap2_state \<Rightarrow> iap2_state \<times> effect list" where
  "initializeNative p object s =
     (case getBluetoothInterface p of
        None \<Rightarrow> (s, [ALOGE ''Bluetooth module is not loaded''])
      | Some btInf \<Rightarrow>
          let (s1, e1) =
                (case sBluetoothIap2Interface s of
                   None \<Rightarrow> (s, [])
                 | Some i \<Rightarrow>
                     (s\<lparr>sBluetoothIap2Interface := None\<rparr>,
                      [ALOGW ''Cleaning up Bluetooth IAP2 Interface before initializing...'',
                       Call_cleanup (iface_id i)]));
              (s2, e2) =
                (case mCallbacksObj s1 of
                   None \<Rightarrow> (s1, [])
                 | Some r \<Rightarrow>
                     (s1\<lparr>mCallbacksObj := None\<rparr>,
                      [ALOGW ''Cleaning up Bluetooth IAP2 callback object'',
                       Call_DeleteGlobalRef r]))
          in (case get_profile_interface btInf BT_PROFILE_IAP2_ID of
                None \<Rightarrow>
                  (s2\<lparr>sBluetoothIap2Interface := None\<rparr>,
                   e1 @ e2 @ [ALOGE ''Failed to get Bluetooth IAP2 Interface''])
              | Some i \<Rightarrow>
                  if init i \<noteq> BT_STATUS_SUCCESS
                  then (s2\<lparr>sBluetoothIap2Interface := None\<rparr>,
                        e1 @ e2 @ [Call_init (iface_id i),
                                   ALOGE ''Failed to initialize Bluetooth IAP2, status: %d''])
                  else (s2\<lparr>sBluetoothIap2Interface := Some i,
                            mCallbacksObj := NewGlobalRef p object\<rparr>,
                        e1 @ e2 @ [Call_init (iface_id i),
                                   Call_NewGlobalRef object (NewGlobalRef p object)])))"

definition cleanupNative :: "platform \<Rightarrow> iap2_state \<Rightarrow> iap2_state \<times> effect list" where
  "cleanupNative p s =
     (case getBluetoothInterface p of
        None \<Rightarrow> (s, [ALOGE ''Bluetooth module is not loaded''])
      | Some btInf \<Rightarrow>
          let (s1, e1) =
                (case sBluetoothIap2Interface s of
                   None \<Rightarrow> (s, [])
                 | Some i \<Rightarrow>
                     (s\<lparr>sBluetoothIap2Interface := None\<rparr>,
                      [ALOGW ''Cleaning up Bluetooth IAP2 Interface...'',
                       Call_cleanup (iface_id i)]));
              (s2, e2) =
                (case mCallbacksObj s1 of
                   None \<Rightarrow> (s1, [])
                 | Some r \<Rightarrow>
                     (s1\<lparr>mCallbacksObj := None\<rparr>,
                      [ALOGW ''Cleaning up Bluetooth Handsfree callback object'',
                       Call_DeleteGlobalRef r]))
          in (s2, e1 @ e2))"

text \<open>A native method that returns \<open>jboolean\<close> gives the value, the statics and its effects.\<close>

definition connectIap2Native ::
  "platform \<Rightarrow> jbyteArray \<Rightarrow> iap2_state \<Rightarrow> bool \<times> iap2_state \<times> effect list" where
  "connectIap2Native p address s =
     (case sBluetoothIap2Interface s of
        None \<Rightarrow> (False, s, [ALOGI ''%s: sBluetoothIap2Interface: %p''])
      | Some i \<Rightarrow>
          (case GetByteArrayElements p address of
             None \<Rightarrow> (False, s, [ALOGI ''%s: sBluetoothIap2Interface: %p'',
                                  Call_jniThrowIOException EINVAL])
           | Some addr \<Rightarrow>
               let status = connect i addr
               in (status = BT_STATUS_SUCCESS, s,
                   [ALOGI ''%s: sBluetoothIap2Interface: %p'', Call_connect (iface_id i) addr]
                   @ (if status \<noteq> BT_STATUS_SUCCESS
                      then [ALOGE ''Failed IAP2 connection, status: %d''] else [])
                   @ [Call_ReleaseByteArrayElements addr])))"

definition disconnectIap2Native ::
  "platform \<Rightarrow> jbyteArray \<Rightarrow> iap2_state \<Rightarrow> bool \<times> iap2_state \<times> effect list" where
  "disconnectIap2Native p address s =
     (case sBluetoothIap2Interface s of
        None \<Rightarrow> (False, s, [])
      | Some i \<Rightarrow>
          (case GetByteArrayElements p address of
             None \<Rightarrow> (False, s, [Call_jniThrowIOException EINVAL])
           | Some addr \<Rightarrow>
               let status = disconnect i addr
               in (status = BT_STATUS_SUCCESS, s,
                   [Call_disconnect (iface_id i) addr]
                   @ (if status \<noteq> BT_STATUS_SUCCESS
                      then [ALOGE ''Failed IAP2 disconnection, status: %d''] else [])
                   @ [Call_ReleaseByteArrayElements addr])))"

text \<open>
  \<open>sendDataNative\<close> hands \<open>len\<close> and the pointer to the array's elements to
  \<open>send_data\<close>; the array's own length is never asked for.
\<close>

definition sendDataNative ::
  "platform \<Rightarrow> jint \<Rightarrow> jbyteArray \<Rightarrow> iap2_state \<Rightarrow> bool \<times> iap2_state \<times> effect list" where
  "sendDataNative p len data s =
     (case sBluetoothIap2Interface s of
        None \<Rightarrow> (False, s, [])
      | Some i \<Rightarrow>
          (case GetByteArrayElements p data of
             None \<Rightarrow> (False, s, [Call_jniThrowIOException EINVAL])
           | Some buf \<Rightarrow>
               let status = send_data i len buf
               in (status = BT_STATUS_SUCCESS, s,
                   [Call_send_data (iface_id i) len buf]
                   @ (if status \<noteq> BT_STATUS_SUCCESS
                      then [ALOGE ''Failed IAP2 send data, status: %d''] else [])
                   @ [Call_ReleaseByteArrayElements buf])))"

subsection \<open>The callbacks\<close>

text \<open>
  \<open>checkCallbackThread\<close> asks the adapter service for its callback environment at
  every call, stores it in \<open>sCallbackEnv\<close>, and compares it with the environment of the
  running thread.
\<close>

definition checkCallbackThread :: "platform \<Rightarrow> iap2_state \<Rightarrow> bool \<times> iap2_state" where
  "checkCallbackThread p s =
     (let s1 = s\<lparr>sCallbackEnv := getCallbackEnv p\<rparr>;
          env = getJNIEnv p
      in if sCallbackEnv s1 \<noteq> env \<or> sCallbackEnv s1 = None then (False, s1) else (True, s1))"

text \<open>The log line of the macro \<open>CHECK_CALLBACK_ENV\<close>.\<close>

definition CHECK_CALLBACK_ENV_log :: effect where
  "CHECK_CALLBACK_ENV_log = ALOGE ''Callback: '%s' is not called on the correct thread''"

definition connection_state_callback ::
  "platform \<Rightarrow> btiap2_connection_state_t \<Rightarrow> ptr \<Rightarrow> iap2_state \<Rightarrow> iap2_state \<times> effect list" where
  "connection_state_callback p state bd_addr s =
     (let (ok, s1) = checkCallbackThread p s
      in if \<not> ok then (s1, [ALOGI ''%s'', CHECK_CALLBACK_ENV_log])
         else (case NewByteArray p sizeof_bt_bdaddr_t (jheap s1) of
                 None \<Rightarrow>
                   (s1, [ALOGI ''%s'',
                         ALOGE ''Fail to new jbyteArray bd addr for connection state'',
                         Call_checkAndClearExceptionFromCallback])
               | Some (addr, h1) \<Rightarrow>
                   (s1\<lparr>jheap := SetByteArrayRegion (memory s1) h1 addr 0 sizeof_bt_bdaddr_t bd_addr\<rparr>,
                    [ALOGI ''%s'',
                     CallVoidMethod (mCallbacksObj s1) (onConnectionStateChanged state addr),
                     Call_checkAndClearExceptionFromCallback,
                     Call_DeleteLocalRef addr])))"

definition service_state_callback ::
  "platform \<Rightarrow> btiap2_service_state_t \<Rightarrow> ptr \<Rightarrow> int \<Rightarrow> iap2_state \<Rightarrow> iap2_state \<times> effect list" where
  "service_state_callback p state bd_addr fd s =
     (let (ok, s1) = checkCallbackThread p s
      in if \<not> ok then (s1, [ALOGI ''%s'', CHECK_CALLBACK_ENV_log])
         else (case NewByteArray p sizeof_bt_bdaddr_t (jheap s1) of
                 None \<Rightarrow>
                   (s1, [ALOGI ''%s'',
                         ALOGE ''Fail to new jbyteArray bd addr for connection state'',
                         Call_checkAndClearExceptionFromCallback])
               | Some (addr, h1) \<Rightarrow>
                   let fileDescriptor =
                         (if state = BTIAP2_SERVICE_STATE_CONNECTED
                          then jniCreateFileDescriptor p fd else None)
                   in if state = BTIAP2_SERVICE_STATE_CONNECTED \<and> fileDescriptor = None
                      then (s1\<lparr>jheap := h1\<rparr>,
                            [ALOGI ''%s'',
                             ALOGE ''Failed to convert file descriptor, fd: %d'',
                             Call_DeleteLocalRef addr])
                      else (s1\<lparr>jheap := SetByteArrayRegion (memory s1) h1 addr 0 sizeof_bt_bdaddr_t bd_addr\<rparr>,
                            [ALOGI ''%s'',
                             CallVoidMethod (mCallbacksObj s1)
                               (onServiceStateChanged state addr fileDescriptor),
                             Call_checkAndClearExceptionFromCallback,
                             Call_DeleteLocalRef addr])))"

text \<open>
  \<open>len\<close> is an \<open>unsigned int\<close>; \<open>NewByteArray\<close>, \<open>SetByteArrayRegion\<close> and the cast
  \<open>(jint) len\<close> read the same 32 bits as a signed number.
\<close>

definition data_callback ::
  "platform \<Rightarrow> 32 word \<Rightarrow> ptr \<Rightarrow> iap2_state \<Rightarrow> iap2_state \<times> effect list" where
  "data_callback p len data s =
     (let (ok, s1) = checkCallbackThread p s
      in if \<not> ok then (s1, [CHECK_CALLBACK_ENV_log])
         else (case NewByteArray p len (jheap s1) of
                 None \<Rightarrow>
                   (s1, [ALOGE ''Fail to new jbyteArray buf for data callback'',
                         Call_checkAndClearExceptionFromCallback])
               | Some (buf, h1) \<Rightarrow>
                   (s1\<lparr>jheap := SetByteArrayRegion (memory s1) h1 buf 0 len data\<rparr>,
                    [CallVoidMethod (mCallbacksObj s1) (onDataRx len buf),
                     Call_checkAndClearExceptionFromCallback,
                     Call_DeleteLocalRef buf])))"

definition error_callback ::
  "platform \<Rightarrow> jint \<Rightarrow> string \<Rightarrow> iap2_state \<Rightarrow> iap2_state \<times> effect list" where
  "error_callback p error_code error_string s =
     (let (ok, s1) = checkCallbackThread p s
      in if \<not> ok then (s1, [CHECK_CALLBACK_ENV_log])
         else (let js_error_string = NewStringUTF p error_string
               in (s1, [CallVoidMethod (mCallbacksObj s1) (onError error_code js_error_string),
                        Call_checkAndClearExceptionFromCallback,
                        Call_DeleteLocalRef_string js_error_string])))"

subsection \<open>Reading an effect list\<close>

text \<open>
  The table of live global references, replayed over an effect list: a \<open>NewGlobalRef\<close>
  that succeeds adds one, \<open>DeleteGlobalRef\<close> removes one.  \<open>peak_global_refs\<close> is the
  largest size the table has at any moment of the replay.
\<close>

fun ref_step :: "effect \<Rightarrow> jobject list \<Rightarrow> jobject list" where
  "ref_step (Call_NewGlobalRef obj (Some r)) t = r # t"
| "ref_step (Call_DeleteGlobalRef r) t = remove1 r t"
| "ref_step e t = t"

fun global_refs :: "effect list \<Rightarrow> jobject list \<Rightarrow> jobject list" where
  "global_refs [] t = t"
| "global_refs (e # es) t = global_refs es (ref_step e t)"

fun peak_global_refs :: "effect list \<Rightarrow> jobject list \<Rightarrow> nat" where
  "peak_global_refs [] t = length t"
| "peak_global_refs (e # es) t = max (length t) (peak_global_refs es (ref_step e t))"

fun is_global_ref_call :: "effect \<Rightarrow> bool" where
  "is_global_ref_call (Call_NewGlobalRef obj r) = True"
| "is_global_ref_call (Call_DeleteGlobalRef r) = True"
| "is_global_ref_call e = False"

text \<open>The references the statics hold.\<close>

definition held_refs :: "iap2_state \<Rightarrow> jobject list" where
  "held_refs s = (case mCallbacksObj s of None \<Rightarrow> [] | Some r \<Rightarrow> [r])"

text \<open>A write to native memory by the transport, after a callback has returned.\<close>

definition native_write :: "ptr \<Rightarrow> jbyte \<Rightarrow> iap2_state \<Rightarrow> iap2_state" where
  "native_write a v s = s\<lparr>memory := (memory s)(a := v)\<rparr>"

subsection \<open>Concrete inputs\<close>

text \<open>
  A transport whose entry points all succeed, a platform where every call succeeds and
  the running thread is the callback thread, a state with an interface and a listener,
  and the state before any initialisation.  Address \<open>a\<close> of native memory holds the
  byte \<open>a\<close>.
\<close>

definition example_iface :: btiap2_interface_t where
  "example_iface =
     \<lparr>iface_id = 7, init = BT_STATUS_SUCCESS,
      connect = (\<lambda>a. BT_STATUS_SUCCESS), disconnect = (\<lambda>a. BT_STATUS_SUCCESS),
      send_data = (\<lambda>n b. BT_STATUS_SUCCESS)\<rparr>"

definition example_bt :: bt_interface_t where
  "example_bt =
     \<lparr>get_profile_interface =
        (\<lambda>pid. if pid = BT_PROFILE_IAP2_ID then Some example_iface else None)\<rparr>"

definition example_platform :: platform where
  "example_platform =
     \<lparr>getBluetoothInterface = Some example_bt, getCallbackEnv = Some 1, getJNIEnv = Some 1,
      NewByteArray_ok = True, jniCreateFileDescriptor_ok = True, NewStringUTF_ok = True,
      GetByteArrayElements_ok = True, NewGlobalRef_ok = True\<rparr>"

definition example_state :: iap2_state where
  "example_state =
     \<lparr>sBluetoothIap2Interface = Some example_iface, mCallbacksObj = Some 42,
      sCallbackEnv = None, jheap = [], memory = (\<lambda>a. of_nat a)\<rparr>"

definition clean_state :: iap2_state where
  "clean_state =
     \<lparr>sBluetoothIap2Interface = None, mCallbacksObj = None,
      sCallbackEnv = None, jheap = [], memory = (\<lambda>a. of_nat a)\<rparr>"

section \<open>Properties\<close>

lemmas example_defs =
  example_iface_def example_bt_def example_platform_def example_state_def clean_state_def

subsection \<open>Native methods on an uninitialised binding\<close>

text \<open>
  Claim C8.  When no native interface is active (\<open>sBluetoothIap2Interface\<close> is NULL),
  connect, disconnect and sendData return false at once, leave the statics as they
  are, and call nothing on the transport, whatever their arguments.  connect has written
  its information log line by then, and nothing else.
\<close>

theorem uninitialized_calls_fail:
  assumes "sBluetoothIap2Interface s = None"
  shows "connectIap2Native p address s = (False, s, [ALOGI ''%s: sBluetoothIap2Interface: %p''])
       \<and> disconnectIap2Native p address s = (False, s, [])
       \<and> sendDataNative p len data s = (False, s, [])
       \<and> filter is_transport_call (snd (snd (connectIap2Native p address s))) = []
       \<and> filter is_transport_call (snd (snd (disconnectIap2Native p address s))) = []
       \<and> filter is_transport_call (snd (snd (sendDataNative p len data s))) = []"
  using assms by (simp add: connectIap2Native_def disconnectIap2Native_def sendDataNative_def)

theorem uninitialized_calls_fail_witness:
  "sBluetoothIap2Interface clean_state = None
   \<and> sendDataNative example_platform 5 [0, 1, 2, 3, 4] clean_state = (False, clean_state, [])
   \<and> fst (connectIap2Native example_platform [1, 2, 3, 4, 5, 6] clean_state) = False
   \<and> fst (disconnectIap2Native example_platform [1, 2, 3, 4, 5, 6] clean_state) = False"
  using uninitialized_calls_fail
          [of clean_state example_platform "[1, 2, 3, 4, 5, 6]" 5 "[0, 1, 2, 3, 4]"]
  by (simp add: clean_state_def)

subsection \<open>Arguments that cannot be read\<close>

text \<open>
  Claim C9.  With an interface active, when \<open>GetByteArrayElements\<close> gives NULL for the
  address or the data array, connect, disconnect and sendData throw an IOException
  (\<open>jniThrowIOException\<close> with \<open>EINVAL\<close>), return false, and have called nothing on
  the transport.
\<close>

theorem unreadable_argument_throws:
  assumes "sBluetoothIap2Interface s = Some i"
    and "GetByteArrayElements p address = None"
    and "GetByteArrayElements p data = None"
  shows "connectIap2Native p address s =
           (False, s, [ALOGI ''%s: sBluetoothIap2Interface: %p'', Call_jniThrowIOException EINVAL])
       \<and> disconnectIap2Native p address s = (False, s, [Call_jniThrowIOException EINVAL])
       \<and> sendDataNative p len data s = (False, s, [Call_jniThrowIOException EINVAL])
       \<and> filter is_transport_call (snd (snd (connectIap2Native p address s))) = []
       \<and> filter is_transport_call (snd (snd (disconnectIap2Native p address s))) = []
       \<and> filter is_transport_call (snd (snd (sendDataNative p len data s))) = []"
  using assms by (simp add: connectIap2Native_def disconnectIap2Native_def sendDataNative_def)

theorem unreadable_argument_throws_witness:
  "sBluetoothIap2Interface example_state = Some example_iface
   \<and> GetByteArrayElements (example_platform\<lparr>GetByteArrayElements_ok := False\<rparr>)
         [1, 2, 3, 4, 5, 6] = None
   \<and> GetByteArrayElements (example_platform\<lparr>GetByteArrayElements_ok := False\<rparr>)
         [0, 1, 2, 3, 4] = None
   \<and> sendDataNative (example_platform\<lparr>GetByteArrayElements_ok := False\<rparr>) 5 [0, 1, 2, 3, 4]
         example_state
       = (False, example_state, [Call_jniThrowIOException 22])
   \<and> disconnectIap2Native (example_platform\<lparr>GetByteArrayElements_ok := False\<rparr>)
         [1, 2, 3, 4, 5, 6] example_state
       = (False, example_state, [Call_jniThrowIOException 22])"
  using unreadable_argument_throws
          [of example_state example_iface "example_platform\<lparr>GetByteArrayElements_ok := False\<rparr>"
              "[1, 2, 3, 4, 5, 6]" "[0, 1, 2, 3, 4]" 5]
  by (simp add: example_state_def GetByteArrayElements_def EINVAL_def)

subsection \<open>sendData and the length of its buffer\<close>

text \<open>
  Claim C1, as stated: a call of sendData whose buffer is readable but shorter than the
  length raises an argument error and forwards nothing.  It fails on the code: with an
  active interface, length 5 and a readable array of three bytes, \<open>send_data\<close> is called
  with length 5 and the pointer to the three bytes, nothing is thrown, and the call
  returns what the transport returns (true here).
\<close>

theorem sendData_short_buffer_counterexample:
  "sBluetoothIap2Interface example_state = Some example_iface
   \<and> GetByteArrayElements example_platform [1, 2, 3] = Some [1, 2, 3]
   \<and> int (length [1, 2, 3 :: jbyte]) < sint (5 :: jint)
   \<and> sendDataNative example_platform 5 [1, 2, 3] example_state
       = (True, example_state,
          [Call_send_data 7 5 [1, 2, 3], Call_ReleaseByteArrayElements [1, 2, 3]])
   \<and> filter is_throw (snd (snd (sendDataNative example_platform 5 [1, 2, 3] example_state))) = []
   \<and> filter is_transport_call
         (snd (snd (sendDataNative example_platform 5 [1, 2, 3] example_state)))
       = [Call_send_data 7 5 [1, 2, 3]]"
  by (simp add: sendDataNative_def GetByteArrayElements_def example_defs)

text \<open>
  Claim C1, amended.  With an interface active and a readable buffer, sendData makes
  exactly one transport call, \<open>send_data\<close> with the caller's length and the buffer's own
  bytes, whatever the two sizes are; it throws nothing, leaves the statics as they are,
  and returns true exactly when the transport's status is success.
\<close>

theorem sendData_forwards_without_length_check:
  assumes "sBluetoothIap2Interface s = Some i"
    and "GetByteArrayElements p data = Some buf"
  shows "buf = data
       \<and> fst (sendDataNative p len data s) = (send_data i len data = BT_STATUS_SUCCESS)
       \<and> fst (snd (sendDataNative p len data s)) = s
       \<and> filter is_transport_call (snd (snd (sendDataNative p len data s)))
           = [Call_send_data (iface_id i) len data]
       \<and> filter is_throw (snd (snd (sendDataNative p len data s))) = []"
  using assms
  by (auto simp add: sendDataNative_def GetByteArrayElements_def Let_def split: if_splits)

theorem sendData_forwards_without_length_check_witness:
  "sBluetoothIap2Interface example_state = Some example_iface
   \<and> GetByteArrayElements example_platform [0, 1, 2, 3, 4] = Some [0, 1, 2, 3, 4]
   \<and> fst (sendDataNative example_platform 5 [0, 1, 2, 3, 4] example_state)
   \<and> filter is_transport_call
         (snd (snd (sendDataNative example_platform 5 [0, 1, 2, 3, 4] example_state)))
       = [Call_send_data 7 5 [0, 1, 2, 3, 4]]"
  using sendData_forwards_without_length_check
          [of example_state example_iface example_platform "[0, 1, 2, 3, 4]" "[0, 1, 2, 3, 4]" 5]
  by (simp add: GetByteArrayElements_def example_defs)

subsection \<open>cleanup\<close>

text \<open>
  Claim C10.  When \<open>getBluetoothInterface\<close> gives NULL, cleanup logs that the module is
  not loaded and returns: the interface reference and the listener reference are what
  they were, and nothing is released, also when both are set.
\<close>

theorem cleanupNative_registry_unavailable:
  assumes "getBluetoothInterface p = None"
  shows "cleanupNative p s = (s, [ALOGE ''Bluetooth module is not loaded''])"
  using assms by (simp add: cleanupNative_def)

theorem cleanupNative_registry_unavailable_witness:
  "getBluetoothInterface (example_platform\<lparr>getBluetoothInterface := None\<rparr>) = None
   \<and> sBluetoothIap2Interface example_state \<noteq> None
   \<and> mCallbacksObj example_state \<noteq> None
   \<and> cleanupNative (example_platform\<lparr>getBluetoothInterface := None\<rparr>) example_state
       = (example_state, [ALOGE ''Bluetooth module is not loaded''])"
  using cleanupNative_registry_unavailable
          [of "example_platform\<lparr>getBluetoothInterface := None\<rparr>" example_state]
  by (simp add: example_state_def)

lemma cleanupNative_loaded:
  "getBluetoothInterface p = Some b \<Longrightarrow>
   fst (cleanupNative p s) = s\<lparr>sBluetoothIap2Interface := None, mCallbacksObj := None\<rparr>"
  by (simp add: cleanupNative_def split: option.splits)

text \<open>
  Claim C6.  cleanup is idempotent: on the same platform, a second cleanup right after
  a first leaves the statics as the first left them, and calls neither the interface's
  cleanup nor \<open>DeleteGlobalRef\<close>.
\<close>

theorem cleanupNative_idempotent:
  "fst (cleanupNative p (fst (cleanupNative p s))) = fst (cleanupNative p s)
   \<and> filter is_release (snd (cleanupNative p (fst (cleanupNative p s)))) = []"
  by (cases "getBluetoothInterface p") (simp_all add: cleanupNative_def split: option.splits)

theorem cleanupNative_idempotent_witness:
  "fst (cleanupNative example_platform example_state) = clean_state
   \<and> filter is_release (snd (cleanupNative example_platform example_state))
       = [Call_cleanup 7, Call_DeleteGlobalRef 42]
   \<and> cleanupNative example_platform clean_state = (clean_state, [])"
  using cleanupNative_idempotent [of example_platform example_state]
  by (simp add: cleanupNative_def example_defs)

text \<open>
  The second cleanup is also idle whatever the platform answers then, once the first
  found the module loaded.  The remaining order of answers is not idle: a first cleanup
  that found no module released nothing (C10), so a second one that finds the module
  does the releasing.
\<close>

lemma cleanupNative_after_loaded_cleanup:
  "getBluetoothInterface p1 = Some b \<Longrightarrow>
   fst (cleanupNative p2 (fst (cleanupNative p1 s))) = fst (cleanupNative p1 s)
   \<and> filter is_release (snd (cleanupNative p2 (fst (cleanupNative p1 s)))) = []"
  by (cases "getBluetoothInterface p2") (simp_all add: cleanupNative_def split: option.splits)

lemma cleanupNative_after_skipped_cleanup:
  "getBluetoothInterface p1 = None \<Longrightarrow> getBluetoothInterface p2 = Some b \<Longrightarrow>
   sBluetoothIap2Interface s = Some i \<Longrightarrow> mCallbacksObj s = Some r \<Longrightarrow>
   filter is_release (snd (cleanupNative p2 (fst (cleanupNative p1 s))))
     = [Call_cleanup (iface_id i), Call_DeleteGlobalRef r]"
  by (simp add: cleanupNative_def)

subsection \<open>The thread check of the callbacks\<close>

lemma checkCallbackThread_fails:
  "getJNIEnv p \<noteq> getCallbackEnv p \<or> getCallbackEnv p = None \<Longrightarrow>
   checkCallbackThread p s = (False, s\<lparr>sCallbackEnv := getCallbackEnv p\<rparr>)"
  by (auto simp add: checkCallbackThread_def Let_def)

text \<open>
  Claim C2.  In each of the four callbacks, when the environment of the running thread
  differs from the callback environment just fetched, or none could be fetched, the
  listener is not called, and nothing of the event is kept: the only change to the
  statics is the refreshed \<open>sCallbackEnv\<close>, the Java heap is untouched, and the effects
  are log lines only.
\<close>

theorem callbacks_dropped_on_wrong_thread:
  assumes "getJNIEnv p \<noteq> getCallbackEnv p \<or> getCallbackEnv p = None"
  shows "connection_state_callback p cstate bd_addr s =
           (s\<lparr>sCallbackEnv := getCallbackEnv p\<rparr>, [ALOGI ''%s'', CHECK_CALLBACK_ENV_log])
       \<and> service_state_callback p sstate bd_addr fd s =
           (s\<lparr>sCallbackEnv := getCallbackEnv p\<rparr>, [ALOGI ''%s'', CHECK_CALLBACK_ENV_log])
       \<and> data_callback p len data s =
           (s\<lparr>sCallbackEnv := getCallbackEnv p\<rparr>, [CHECK_CALLBACK_ENV_log])
       \<and> error_callback p error_code error_string s =
           (s\<lparr>sCallbackEnv := getCallbackEnv p\<rparr>, [CHECK_CALLBACK_ENV_log])
       \<and> filter is_listener_call (snd (connection_state_callback p cstate bd_addr s)) = []
       \<and> filter is_listener_call (snd (service_state_callback p sstate bd_addr fd s)) = []
       \<and> filter is_listener_call (snd (data_callback p len data s)) = []
       \<and> filter is_listener_call (snd (error_callback p error_code error_string s)) = []"
  using checkCallbackThread_fails [OF assms, of s]
  by (simp add: connection_state_callback_def service_state_callback_def data_callback_def
      error_callback_def CHECK_CALLBACK_ENV_log_def)

theorem callbacks_dropped_on_wrong_thread_witness:
  "getJNIEnv (example_platform\<lparr>getJNIEnv := Some 2\<rparr>) = Some 2
   \<and> getCallbackEnv (example_platform\<lparr>getJNIEnv := Some 2\<rparr>) = Some 1
   \<and> getCallbackEnv (example_platform\<lparr>getCallbackEnv := None\<rparr>) = None
   \<and> data_callback (example_platform\<lparr>getJNIEnv := Some 2\<rparr>) 3 100 example_state
       = (example_state\<lparr>sCallbackEnv := Some 1\<rparr>,
          [ALOGE ''Callback: '%s' is not called on the correct thread''])
   \<and> service_state_callback (example_platform\<lparr>getCallbackEnv := None\<rparr>)
        BTIAP2_SERVICE_STATE_CONNECTED 100 7 example_state
       = (example_state,
          [ALOGI ''%s'', ALOGE ''Callback: '%s' is not called on the correct thread''])"
  using callbacks_dropped_on_wrong_thread
          [of "example_platform\<lparr>getJNIEnv := Some 2\<rparr>" _ _ example_state _ _ 3 100]
        callbacks_dropped_on_wrong_thread
          [of "example_platform\<lparr>getCallbackEnv := None\<rparr>" _ _ example_state
              BTIAP2_SERVICE_STATE_CONNECTED 7]
  by (simp add: example_platform_def example_state_def CHECK_CALLBACK_ENV_log_def)

subsection \<open>The service state callback and its file descriptor\<close>

text \<open>
  Claim C3.  Whenever the service state callback calls \<open>onServiceStateChanged\<close>, the
  state it passes is the one it was given, and the file descriptor argument is present
  exactly when that state is CONNECTED (it then wraps the descriptor of the transport);
  for every other state the argument is absent.
\<close>

theorem service_state_handle_iff_connected:
  assumes "CallVoidMethod l (onServiceStateChanged st a h)
             \<in> set (snd (service_state_callback p state bd_addr fd s))"
  shows "st = state
       \<and> (h \<noteq> None) = (st = BTIAP2_SERVICE_STATE_CONNECTED)
       \<and> (st = BTIAP2_SERVICE_STATE_CONNECTED \<longrightarrow> h = Some fd)"
  using assms
  by (auto simp add: service_state_callback_def jniCreateFileDescriptor_def
      CHECK_CALLBACK_ENV_log_def Let_def
      split: prod.splits if_splits option.splits)

theorem service_state_handle_iff_connected_witness:
  "CallVoidMethod (Some 42) (onServiceStateChanged BTIAP2_SERVICE_STATE_CONNECTED 0 (Some 7))
     \<in> set (snd (service_state_callback example_platform
                    BTIAP2_SERVICE_STATE_CONNECTED 100 7 example_state))
   \<and> CallVoidMethod (Some 42) (onServiceStateChanged BTIAP2_SERVICE_STATE_DISCONNECTED 0 None)
     \<in> set (snd (service_state_callback example_platform
                    BTIAP2_SERVICE_STATE_DISCONNECTED 100 7 example_state))
   \<and> ((Some (7::int) \<noteq> None)
        = (BTIAP2_SERVICE_STATE_CONNECTED = BTIAP2_SERVICE_STATE_CONNECTED))
   \<and> (((None :: int option) \<noteq> None)
        = (BTIAP2_SERVICE_STATE_DISCONNECTED = BTIAP2_SERVICE_STATE_CONNECTED))"
  using service_state_handle_iff_connected
          [of "Some 42" BTIAP2_SERVICE_STATE_CONNECTED 0 "Some 7" example_platform
              BTIAP2_SERVICE_STATE_CONNECTED 100 7 example_state]
        service_state_handle_iff_connected
          [of "Some 42" BTIAP2_SERVICE_STATE_DISCONNECTED 0 None example_platform
              BTIAP2_SERVICE_STATE_DISCONNECTED 100 7 example_state]
  by (simp add: service_state_callback_def checkCallbackThread_def NewByteArray_def
      jniCreateFileDescriptor_def sizeof_bt_bdaddr_t_def Let_def example_defs)

text \<open>
  Claim C4.  When the service state is CONNECTED and \<open>jniCreateFileDescriptor\<close> gives
  NULL, the callback returns without calling the listener.
\<close>

theorem service_state_dropped_without_descriptor:
  assumes "state = BTIAP2_SERVICE_STATE_CONNECTED"
    and "jniCreateFileDescriptor p fd = None"
  shows "filter is_listener_call (snd (service_state_callback p state bd_addr fd s)) = []"
  using assms
  by (simp add: service_state_callback_def CHECK_CALLBACK_ENV_log_def Let_def
      split: prod.splits option.splits)

theorem service_state_dropped_without_descriptor_witness:
  "jniCreateFileDescriptor (example_platform\<lparr>jniCreateFileDescriptor_ok := False\<rparr>) 7 = None
   \<and> service_state_callback (example_platform\<lparr>jniCreateFileDescriptor_ok := False\<rparr>)
        BTIAP2_SERVICE_STATE_CONNECTED 100 7 example_state
       = (example_state\<lparr>sCallbackEnv := Some 1, jheap := [replicate 6 0]\<rparr>,
          [ALOGI ''%s'', ALOGE ''Failed to convert file descriptor, fd: %d'',
           Call_DeleteLocalRef 0])
   \<and> filter is_listener_call
        (snd (service_state_callback (example_platform\<lparr>jniCreateFileDescriptor_ok := False\<rparr>)
                BTIAP2_SERVICE_STATE_CONNECTED 100 7 example_state)) = []"
  using service_state_dropped_without_descriptor
          [of BTIAP2_SERVICE_STATE_CONNECTED
              "example_platform\<lparr>jniCreateFileDescriptor_ok := False\<rparr>" 7 100 example_state]
  by (simp add: service_state_callback_def checkCallbackThread_def NewByteArray_def
      jniCreateFileDescriptor_def sizeof_bt_bdaddr_t_def Let_def example_defs)

subsection \<open>The data callback's copy\<close>

lemma nat_sint_unat:
  assumes "0 \<le> sint (w :: 32 word)"
  shows "nat (sint w) = unat w"
proof -
  have "sint w < 2 ^ 32"
    using sint_lt [of w] by simp
  then have "take_bit 32 (sint w) = sint w"
    using assms by (simp add: take_bit_int_eq_self)
  then have "uint w = sint w"
    using uint_sint [of w] by simp
  then have "nat (sint w) = nat (uint w)"
    by simp
  then show ?thesis
    by (simp only: unat_eq_nat_uint)
qed

lemma length_read_bytes: "length (read_bytes m p n) = n"
  by (simp add: read_bytes_def)

lemma SetByteArrayRegion_fresh:
  "0 \<le> sint n \<Longrightarrow>
   SetByteArrayRegion m (h @ [replicate (nat (sint n)) 0]) (length h) 0 n buf
     = h @ [read_bytes m buf (nat (sint n))]"
  by (simp add: SetByteArrayRegion_def)

lemma data_callback_delivered:
  assumes "CallVoidMethod l (onDataRx n buf) \<in> set (snd (data_callback p len data s))"
  shows "n = len \<and> buf = length (jheap s) \<and> l = mCallbacksObj s \<and> 0 \<le> sint len
       \<and> fst (data_callback p len data s)
           = s\<lparr>sCallbackEnv := getCallbackEnv p,
                jheap := jheap s @ [read_bytes (memory s) data (unat len)]\<rparr>"
  using assms
  by (auto simp add: data_callback_def checkCallbackThread_def NewByteArray_def
      CHECK_CALLBACK_ENV_log_def Let_def SetByteArrayRegion_fresh
      nat_sint_unat [symmetric] linorder_not_less
      split: if_splits)

text \<open>
  Claim C5.  Whenever the data callback calls \<open>onDataRx\<close>, the length it passes is the
  one it was given, and the array it passes is a new Java array (no array of the heap
  before the call, all of which are kept) holding exactly the \<open>len\<close> bytes that native
  memory held at \<open>data\<close> when the callback ran.  A later write to native memory does not
  change that array.
\<close>

theorem data_callback_delivers_copy:
  assumes "CallVoidMethod l (onDataRx n buf) \<in> set (snd (data_callback p len data s))"
  shows "n = len
       \<and> buf = length (jheap s)
       \<and> jheap (fst (data_callback p len data s))
           = jheap s @ [read_bytes (memory s) data (unat len)]
       \<and> jheap (fst (data_callback p len data s)) ! buf = read_bytes (memory s) data (unat len)
       \<and> length (jheap (fst (data_callback p len data s)) ! buf) = unat len
       \<and> jheap (native_write a v (fst (data_callback p len data s))) ! buf
           = read_bytes (memory s) data (unat len)"
  using data_callback_delivered [OF assms]
  by (simp add: native_write_def length_read_bytes)

theorem data_callback_delivers_copy_witness:
  "CallVoidMethod (Some 42) (onDataRx 3 0)
     \<in> set (snd (data_callback example_platform 3 100 example_state))
   \<and> jheap (fst (data_callback example_platform 3 100 example_state)) = [[100, 101, 102]]
   \<and> jheap (native_write 101 0 (fst (data_callback example_platform 3 100 example_state))) ! 0
       = [100, 101, 102]
   \<and> read_bytes
        (memory (native_write 101 0 (fst (data_callback example_platform 3 100 example_state))))
        100 3
       = [100, 0, 102]"
  using data_callback_delivers_copy [of "Some 42" 3 0 example_platform 3 100 example_state 101 0]
  by (simp add: data_callback_def checkCallbackThread_def NewByteArray_def SetByteArrayRegion_def
      read_bytes_def native_write_def Let_def example_defs upt_rec)

subsection \<open>One listener reference at a time\<close>

lemma peak_bounds_prefix:
  "length (global_refs (take k es) t) \<le> peak_global_refs es t"
proof (induction es arbitrary: k t)
  case Nil
  then show ?case by simp
next
  case (Cons e es)
  show ?case
  proof (cases k)
    case 0
    then show ?thesis by simp
  next
    case (Suc j)
    have "length (global_refs (take j es) (ref_step e t)) \<le> peak_global_refs es (ref_step e t)"
      by (rule Cons.IH)
    with Suc show ?thesis by simp
  qed
qed

lemma initializeNative_peak:
  "peak_global_refs (snd (initializeNative p object s)) (held_refs s) \<le> 1"
  by (simp add: initializeNative_def held_refs_def NewGlobalRef_def Let_def
      split: option.splits prod.splits)

lemma initializeNative_held:
  "global_refs (snd (initializeNative p object s)) (held_refs s)
     = held_refs (fst (initializeNative p object s))"
  by (simp add: initializeNative_def held_refs_def NewGlobalRef_def Let_def
      split: option.splits prod.splits)

lemma initializeNative_order:
  assumes "getBluetoothInterface p = Some btInf"
    and "get_profile_interface btInf BT_PROFILE_IAP2_ID = Some i"
    and "init i = BT_STATUS_SUCCESS"
    and "mCallbacksObj s = Some old"
  shows "filter is_global_ref_call (snd (initializeNative p object s))
           = [Call_DeleteGlobalRef old, Call_NewGlobalRef object (NewGlobalRef p object)]"
  using assms
  by (simp add: initializeNative_def Let_def split: option.splits prod.splits)

text \<open>
  Claim C7.  An initialize that succeeds (module loaded, IAP2 interface found, \<open>init\<close>
  successful) and finds a listener reference makes exactly two calls on global
  references, in this order: \<open>DeleteGlobalRef\<close> on the old reference, then
  \<open>NewGlobalRef\<close> on the new listener, whose result becomes \<open>mCallbacksObj\<close>.  Starting
  from the reference the statics hold, the table of live references has at most one
  entry after every prefix of the call's effects, and at the end it holds what
  \<open>mCallbacksObj\<close> holds.
\<close>

theorem initializeNative_single_listener:
  assumes "getBluetoothInterface p = Some btInf"
    and "get_profile_interface btInf BT_PROFILE_IAP2_ID = Some i"
    and "init i = BT_STATUS_SUCCESS"
    and "mCallbacksObj s = Some old"
  shows "filter is_global_ref_call (snd (initializeNative p object s))
           = [Call_DeleteGlobalRef old, Call_NewGlobalRef object (NewGlobalRef p object)]
       \<and> mCallbacksObj (fst (initializeNative p object s)) = NewGlobalRef p object
       \<and> length (global_refs (take k (snd (initializeNative p object s))) (held_refs s)) \<le> 1
       \<and> global_refs (snd (initializeNative p object s)) (held_refs s)
           = held_refs (fst (initializeNative p object s))"
proof -
  have "length (global_refs (take k (snd (initializeNative p object s))) (held_refs s))
          \<le> peak_global_refs (snd (initializeNative p object s)) (held_refs s)"
    by (rule peak_bounds_prefix)
  then have "length (global_refs (take k (snd (initializeNative p object s))) (held_refs s)) \<le> 1"
    using initializeNative_peak [of p object s] by linarith
  moreover have "mCallbacksObj (fst (initializeNative p object s)) = NewGlobalRef p object"
    using assms by (simp add: initializeNative_def Let_def split: option.splits prod.splits)
  ultimately show ?thesis
    using initializeNative_order [OF assms] initializeNative_held [of p object s] by simp
qed

theorem initializeNative_single_listener_witness:
  "getBluetoothInterface example_platform = Some example_bt
   \<and> get_profile_interface example_bt BT_PROFILE_IAP2_ID = Some example_iface
   \<and> init example_iface = BT_STATUS_SUCCESS
   \<and> mCallbacksObj example_state = Some 42
   \<and> filter is_global_ref_call (snd (initializeNative example_platform 43 example_state))
       = [Call_DeleteGlobalRef 42, Call_NewGlobalRef 43 (Some 43)]
   \<and> held_refs (fst (initializeNative example_platform 43 example_state)) = [43]"
  using initializeNative_single_listener
          [of example_platform example_bt example_iface example_state 42 43 0]
  by (simp add: held_refs_def NewGlobalRef_def example_defs)

end
